theory Spec2Isabelle
  imports Complex_Main
begin

section \<open>Go values held by the attribute maps\<close>

text \<open>
  The attribute maps of the client are \<^verbatim>\<open>map[string]any\<close>. A value of type \<^verbatim>\<open>any\<close>
  is one of the dynamic types that \<^verbatim>\<open>encoding/json\<close> produces when it decodes into an
  interface (nil, bool, float64, string, \<^verbatim>\<open>[]any\<close>, \<^verbatim>\<open>map[string]any\<close>), or a
  \<^verbatim>\<open>[]string\<close>, which the request builders store and which \<^verbatim>\<open>GetStringSlice\<close> also
  accepts in its type switch.

  A Go slice of strings is either \<^verbatim>\<open>nil\<close> or a (possibly empty) sequence; the two are
  told apart by \<^verbatim>\<open>== nil\<close>. It is modelled as \<open>string list option\<close>, \<open>None\<close> being
  the nil slice and \<open>Some []\<close> the explicit empty slice \<^verbatim>\<open>[]string{}\<close>. For a
  \<^verbatim>\<open>[]any\<close> the code only takes its length and ranges over it, so a plain list is enough.
  A Go string is a sequence of bytes, as \<open>string\<close> is here.
\<close>

type_synonym strings = "string list option"

datatype anyv =
    VNil
  | VBool bool
  | VFloat64 rat
  | VString string
  | VSlice "anyv list"
  | VStrings strings
  | VMap "(string \<times> anyv) list"

definition len :: "strings \<Rightarrow> nat" where
  "len v = (case v of None \<Rightarrow> 0 | Some xs \<Rightarrow> length xs)"

section \<open>The Attribute View: \<^verbatim>\<open>Entry\<close> (client.go)\<close>

record Entry =
  Attrs :: "string \<rightharpoonup> anyv"

text \<open>
  \<^verbatim>\<open>Entry.GetString\<close>: the key is looked up with the two-valued map read; the type switch
  has a case for \<^verbatim>\<open>string\<close> and one for \<^verbatim>\<open>[]any\<close>, which reads element 0 only when
  the slice is not empty. Every other path falls through to \<^verbatim>\<open>return ""\<close>.
\<close>

definition GetString :: "Entry \<Rightarrow> string \<Rightarrow> string" where
  "GetString e key =
     (case Attrs e key of
        None \<Rightarrow> ''''
      | Some val \<Rightarrow>
          (case val of
             VString v \<Rightarrow> v
           | VSlice v \<Rightarrow>
               (if length v > 0
                then (case v ! 0 of VString s \<Rightarrow> s | _ \<Rightarrow> '''')
                else '''')
           | _ \<Rightarrow> ''''))"

text \<open>
  The loop of \<^verbatim>\<open>Entry.GetStringSlice\<close> over a \<^verbatim>\<open>[]any\<close>: \<open>result\<close> starts as
  \<^verbatim>\<open>make([]string, 0, len(v))\<close> and every item whose dynamic type is \<^verbatim>\<open>string\<close> is
  appended to it.
\<close>

fun GetStringSlice_loop :: "anyv list \<Rightarrow> string list \<Rightarrow> string list" where
  "GetStringSlice_loop [] result = result"
| "GetStringSlice_loop (item # rest) result =
     (case item of
        VString s \<Rightarrow> GetStringSlice_loop rest (result @ [s])
      | _ \<Rightarrow> GetStringSlice_loop rest result)"

text \<open>
  \<^verbatim>\<open>Entry.GetStringSlice\<close>: a missing key returns \<^verbatim>\<open>nil\<close>; the type switch has the cases
  \<^verbatim>\<open>[]any\<close>, \<^verbatim>\<open>[]string\<close> and \<^verbatim>\<open>string\<close>, in this order, and every other dynamic type
  falls through to the final \<^verbatim>\<open>return nil\<close>.
\<close>

definition GetStringSlice :: "Entry \<Rightarrow> string \<Rightarrow> strings" where
  "GetStringSlice e key =
     (case Attrs e key of
        None \<Rightarrow> None
      | Some val \<Rightarrow>
          (case val of
             VSlice v \<Rightarrow> Some (GetStringSlice_loop v [])
           | VStrings v \<Rightarrow> v
           | VString v \<Rightarrow> Some [v]
           | _ \<Rightarrow> None))"

section \<open>Errors and the Transport (client.go)\<close>

text \<open>
  Go errors as values. The three package-level sentinels are compared by identity
  (\<^verbatim>\<open>errors.Is\<close>), so each is a constructor of its own. \<open>ErrorString msg\<close> is an error
  that only carries a message: one built by \<^verbatim>\<open>fmt.Errorf\<close> without \<^verbatim>\<open>%w\<close>, or one
  returned by \<^verbatim>\<open>net/http\<close> or \<^verbatim>\<open>encoding/json\<close>. \<open>Wrapped ctx err\<close> is
  \<^verbatim>\<open>fmt.Errorf("ctx: %w", err)\<close>.
\<close>

datatype error =
    ErrNotFound
  | ErrUnauthorized
  | ErrForbidden
  | ErrorString string
  | Wrapped string error

record http_request =
  Method :: string
  URL :: string
  Header :: "string \<rightharpoonup> string"
  ReqBody :: "string option"

text \<open>
  Of a response the client reads the status code and the body. \<open>Body\<close> is the byte
  sequence that reading \<^verbatim>\<open>resp.Body\<close> to its end yields. Closing the body is not
  modelled.
\<close>

record http_response =
  StatusCode :: int
  Body :: string

text \<open>The verb \<^verbatim>\<open>%d\<close> of \<^verbatim>\<open>fmt\<close>: a Go \<^verbatim>\<open>int\<close> in decimal, with a sign when negative.\<close>

function fmt_d_nat :: "nat \<Rightarrow> string" where
  "fmt_d_nat n =
     (if n < 10 then [''0123456789'' ! n]
      else fmt_d_nat (n div 10) @ [''0123456789'' ! (n mod 10)])"
  by pat_completeness auto
termination
  by (relation "measure (\<lambda>n. n)") auto

declare fmt_d_nat.simps [simp del]

definition fmt_d :: "int \<Rightarrow> string" where
  "fmt_d i = (if i < 0 then CHR ''-'' # fmt_d_nat (nat (- i)) else fmt_d_nat (nat i))"

text \<open>The status constants of \<^verbatim>\<open>net/http\<close> that \<^verbatim>\<open>checkResponse\<close> switches on.\<close>

definition StatusNotFound :: int where "StatusNotFound = 404"
definition StatusUnauthorized :: int where "StatusUnauthorized = 401"
definition StatusForbidden :: int where "StatusForbidden = 403"

text \<open>
  \<^verbatim>\<open>Client.checkResponse\<close> (the receiver is not used): \<open>None\<close> is the nil error. The
  body is read only after the 2xx test failed; the error of \<^verbatim>\<open>io.ReadAll\<close> is dropped
  by the source.
\<close>

definition checkResponse :: "http_response \<Rightarrow> error option" where
  "checkResponse resp =
     (if StatusCode resp \<ge> 200 \<and> StatusCode resp < 300 then None
      else
        (let body = Body resp in
         if StatusCode resp = StatusNotFound then Some ErrNotFound
         else if StatusCode resp = StatusUnauthorized then Some ErrUnauthorized
         else if StatusCode resp = StatusForbidden then Some ErrForbidden
         else if length body > 0
           then Some (ErrorString (''API error (HTTP '' @ fmt_d (StatusCode resp) @ ''): '' @ body))
           else Some (ErrorString (''API error (HTTP '' @ fmt_d (StatusCode resp) @ '')''))))"

text \<open>
  Request payloads. \<^verbatim>\<open>CreateRequest\<close> and \<^verbatim>\<open>UpdateRequest\<close> are structs with the one
  field \<^verbatim>\<open>Attrs map[string]any\<close>; \<open>body\<close> collects the dynamic types that the
  operations modelled here pass to \<^verbatim>\<open>doRequest\<close> as \<^verbatim>\<open>body any\<close> (\<open>None\<close> is nil).
\<close>

datatype CreateRequest = CreateRequest "string \<rightharpoonup> anyv"
datatype UpdateRequest = UpdateRequest "string \<rightharpoonup> anyv"

definition NewCreateRequest :: "(string \<rightharpoonup> anyv) \<Rightarrow> CreateRequest" where
  "NewCreateRequest attrs = CreateRequest attrs"

definition NewUpdateRequest :: "(string \<rightharpoonup> anyv) \<Rightarrow> UpdateRequest" where
  "NewUpdateRequest attrs = UpdateRequest attrs"

datatype body =
    CreateRequestBody CreateRequest
  | UpdateRequestBody UpdateRequest

text \<open>
  The functions of the Go standard library that the client calls are parameters of the
  model: \<^verbatim>\<open>json.Marshal\<close>, \<^verbatim>\<open>http.NewRequestWithContext\<close> (method, URL, body) and
  \<^verbatim>\<open>json.NewDecoder(r).Decode(target)\<close> for the two targets used, an \<^verbatim>\<open>Entry\<close> and a
  \<^verbatim>\<open>string\<close>, each starting from its zero value. Each may fail.
\<close>

record stdlib =
  json_Marshal :: "body \<Rightarrow> error + string"
  http_NewRequestWithContext :: "string \<Rightarrow> string \<Rightarrow> string option \<Rightarrow> error + http_request"
  json_Decode_Entry :: "string \<Rightarrow> error + Entry"
  json_Decode_string :: "string \<Rightarrow> error + string"

text \<open>
  The \<^verbatim>\<open>Client\<close> struct. \<open>httpClient\<close> stands for \<^verbatim>\<open>c.httpClient.Do\<close>: it takes the
  request and the state \<open>'w\<close> of the world (the remote server), and returns a response
  or a transport error together with the new state. Contexts and timeouts are part of
  that world.
\<close>

record 'w Client =
  baseURL :: string
  token :: string
  httpClient :: "http_request \<Rightarrow> 'w \<Rightarrow> (error + http_response) \<times> 'w"

definition doRequest ::
  "stdlib \<Rightarrow> 'w Client \<Rightarrow> string \<Rightarrow> string \<Rightarrow> body option \<Rightarrow> 'w \<Rightarrow> (error + http_response) \<times> 'w"
where
  "doRequest lib c method path body w =
     (case (case body of
              None \<Rightarrow> Inr None
            | Some b \<Rightarrow>
                (case json_Marshal lib b of
                   Inl err \<Rightarrow> Inl (Wrapped ''marshal request body'' err)
                 | Inr data \<Rightarrow> Inr (Some data))) of
        Inl err \<Rightarrow> (Inl err, w)
      | Inr reqBody \<Rightarrow>
          (case http_NewRequestWithContext lib method (baseURL c @ path) reqBody of
             Inl err \<Rightarrow> (Inl (Wrapped ''create request'' err), w)
           | Inr req0 \<Rightarrow>
               (let req = req0\<lparr>Header := (Header req0)
                            (''Authorization'' \<mapsto> ''Bearer '' @ token c,
                             ''Content-Type'' \<mapsto> ''application/json'',
                             ''Accept'' \<mapsto> ''application/json'')\<rparr>
                in case httpClient c req w of
                     (Inl err, w') \<Rightarrow> (Inl (Wrapped ''execute request'' err), w')
                   | (Inr resp, w') \<Rightarrow>
                       (case checkResponse resp of
                          Some err \<Rightarrow> (Inl err, w')
                        | None \<Rightarrow> (Inr resp, w')))))"

text \<open>\<^verbatim>\<open>decodeResponse\<close>, for a target whose decoder is \<open>dec\<close>.\<close>

definition decodeResponse :: "(string \<Rightarrow> error + 'a) \<Rightarrow> http_response \<Rightarrow> error + 'a" where
  "decodeResponse dec resp =
     (case dec (Body resp) of
        Inl err \<Rightarrow> Inl (Wrapped ''decode response'' err)
      | Inr target \<Rightarrow> Inr target)"

section \<open>Resource operations: OAuth2 clients (oauth2.go)\<close>

text \<open>\<open>ScopeMaps\<close> is a \<^verbatim>\<open>map[string][]string\<close>; \<open>None\<close> is the nil map.\<close>

record OAuth2Client =
  Name :: string
  DisplayName :: string
  Origin :: string
  RedirectURIs :: strings
  ScopeMaps :: "(string \<rightharpoonup> strings) option"
  ClientID :: string
  ClientSecret :: string
  IsPublic :: bool

definition GetOAuth2BasicSecret ::
  "stdlib \<Rightarrow> 'w Client \<Rightarrow> string \<Rightarrow> 'w \<Rightarrow> (error + string) \<times> 'w"
where
  "GetOAuth2BasicSecret lib c name w =
     (case doRequest lib c ''GET'' (''/v1/oauth2/'' @ name @ ''/_basic_secret'') None w of
        (Inl err, w') \<Rightarrow> (Inl (Wrapped ''get oauth2 basic secret'' err), w')
      | (Inr resp, w') \<Rightarrow>
          (case decodeResponse (json_Decode_string lib) resp of
             Inl err \<Rightarrow> (Inl err, w')
           | Inr secret \<Rightarrow> (Inr secret, w')))"

definition CreateOAuth2BasicClient ::
  "stdlib \<Rightarrow> 'w Client \<Rightarrow> string \<Rightarrow> string \<Rightarrow> string \<Rightarrow> 'w \<Rightarrow> (error + OAuth2Client) \<times> 'w"
where
  "CreateOAuth2BasicClient lib c name displayName origin w =
     (let req = NewCreateRequest
                  [''name'' \<mapsto> VStrings (Some [name]),
                   ''displayname'' \<mapsto> VStrings (Some [displayName]),
                   ''oauth2_rs_origin_landing'' \<mapsto> VStrings (Some [origin])]
      in case doRequest lib c ''POST'' ''/v1/oauth2/_basic'' (Some (CreateRequestBody req)) w of
           (Inl err, w1) \<Rightarrow> (Inl (Wrapped ''create oauth2 basic client'' err), w1)
         | (Inr resp, w1) \<Rightarrow>
             (case GetOAuth2BasicSecret lib c name w1 of
                (Inl err, w2) \<Rightarrow> (Inl (Wrapped ''retrieve client secret'' err), w2)
              | (Inr clientSecret, w2) \<Rightarrow>
                  (Inr \<lparr>Name = name, DisplayName = displayName, Origin = origin,
                        RedirectURIs = None, ScopeMaps = None, ClientID = name,
                        ClientSecret = clientSecret, IsPublic = False\<rparr>, w2)))"

definition GetOAuth2Client ::
  "stdlib \<Rightarrow> 'w Client \<Rightarrow> string \<Rightarrow> 'w \<Rightarrow> (error + OAuth2Client) \<times> 'w"
where
  "GetOAuth2Client lib c name w =
     (case doRequest lib c ''GET'' (''/v1/oauth2/'' @ name) None w of
        (Inl err, w') \<Rightarrow> (Inl (Wrapped ''get oauth2 client'' err), w')
      | (Inr resp, w') \<Rightarrow>
          (case decodeResponse (json_Decode_Entry lib) resp of
             Inl err \<Rightarrow> (Inl err, w')
           | Inr entry \<Rightarrow>
               (let hasBasicSecret = (Attrs entry ''oauth2_rs_basic_secret'' \<noteq> None);
                    isPublic = \<not> hasBasicSecret;
                    clientName0 = GetString entry ''name'';
                    clientName = (if clientName0 = '''' then GetString entry ''oauth2_rs_name''
                                  else clientName0);
                    origin0 = GetString entry ''oauth2_rs_origin'';
                    origin = (if length origin0 > 0 \<and> origin0 ! (length origin0 - 1) = CHR ''/''
                              then take (length origin0 - 1) origin0
                              else origin0)
                in (Inr \<lparr>Name = clientName,
                         DisplayName = GetString entry ''displayname'',
                         Origin = origin,
                         RedirectURIs = GetStringSlice entry ''oauth2_rs_origin_landing'',
                         ScopeMaps = None,
                         ClientID = clientName,
                         ClientSecret = '''',
                         IsPublic = isPublic\<rparr>, w'))))"

text \<open>
  The attribute map that \<^verbatim>\<open>UpdateOAuth2Client\<close> builds before it makes the request
  (\<^verbatim>\<open>attrs := make(map[string]any)\<close> and the three guarded assignments).
\<close>

definition UpdateOAuth2Client_attrs :: "string \<Rightarrow> string \<Rightarrow> strings \<Rightarrow> (string \<rightharpoonup> anyv)" where
  "UpdateOAuth2Client_attrs displayName origin redirectURIs =
     (let attrs0 = Map.empty;
          attrs1 = (if displayName \<noteq> '''' then attrs0(''displayname'' \<mapsto> VStrings (Some [displayName]))
                    else attrs0);
          attrs2 = (if origin \<noteq> '''' then attrs1(''oauth2_rs_origin'' \<mapsto> VStrings (Some [origin]))
                    else attrs1);
          attrs3 = (if redirectURIs \<noteq> None then attrs2(''oauth2_rs_origin_landing'' \<mapsto> VStrings redirectURIs)
                    else attrs2)
      in attrs3)"

definition UpdateOAuth2Client ::
  "stdlib \<Rightarrow> 'w Client \<Rightarrow> string \<Rightarrow> string \<Rightarrow> string \<Rightarrow> strings \<Rightarrow> 'w \<Rightarrow> error option \<times> 'w"
where
  "UpdateOAuth2Client lib c name displayName origin redirectURIs w =
     (let req = NewUpdateRequest (UpdateOAuth2Client_attrs displayName origin redirectURIs)
      in case doRequest lib c ''PATCH'' (''/v1/oauth2/'' @ name) (Some (UpdateRequestBody req)) w of
           (Inl err, w') \<Rightarrow> (Some (Wrapped ''update oauth2 client'' err), w')
         | (Inr resp, w') \<Rightarrow> (None, w'))"

section \<open>Resource operations: persons (person.go)\<close>

text \<open>
  The attribute map that \<^verbatim>\<open>UpdatePerson\<close> builds before it makes the request:
  \<^verbatim>\<open>displayname\<close> is set when \<^verbatim>\<open>displayName != ""\<close>, \<^verbatim>\<open>mail\<close> when \<^verbatim>\<open>mail != nil\<close>.
\<close>

definition UpdatePerson_attrs :: "string \<Rightarrow> strings \<Rightarrow> (string \<rightharpoonup> anyv)" where
  "UpdatePerson_attrs displayName mail =
     (let attrs0 = Map.empty;
          attrs1 = (if displayName \<noteq> '''' then attrs0(''displayname'' \<mapsto> VStrings (Some [displayName]))
                    else attrs0);
          attrs2 = (if mail \<noteq> None then attrs1(''mail'' \<mapsto> VStrings mail) else attrs1)
      in attrs2)"

definition UpdatePerson ::
  "stdlib \<Rightarrow> 'w Client \<Rightarrow> string \<Rightarrow> string \<Rightarrow> strings \<Rightarrow> 'w \<Rightarrow> error option \<times> 'w"
where
  "UpdatePerson lib c id' displayName mail w =
     (let req = NewUpdateRequest (UpdatePerson_attrs displayName mail)
      in case doRequest lib c ''PATCH'' (''/v1/person/'' @ id') (Some (UpdateRequestBody req)) w of
           (Inl err, w') \<Rightarrow> (Some (Wrapped ''update person'' err), w')
         | (Inr resp, w') \<Rightarrow> (None, w'))"

section \<open>Resource operations: groups (group.go)\<close>

record Group =
  ID :: string
  Description :: string
  Members :: strings

text \<open>
  \<^verbatim>\<open>GetGroup\<close>: after decoding, a nil result of \<^verbatim>\<open>GetStringSlice\<close> is replaced by
  \<^verbatim>\<open>[]string{}\<close> (the source's comment: "Ensure members is never nil").
\<close>

definition GetGroup :: "stdlib \<Rightarrow> 'w Client \<Rightarrow> string \<Rightarrow> 'w \<Rightarrow> (error + Group) \<times> 'w" where
  "GetGroup lib c id' w =
     (case doRequest lib c ''GET'' (''/v1/group/'' @ id') None w of
        (Inl err, w') \<Rightarrow> (Inl (Wrapped ''get group'' err), w')
      | (Inr resp, w') \<Rightarrow>
          (case decodeResponse (json_Decode_Entry lib) resp of
             Inl err \<Rightarrow> (Inl err, w')
           | Inr entry \<Rightarrow>
               (let members0 = GetStringSlice entry ''member'';
                    members = (if members0 = None then Some [] else members0)
                in (Inr \<lparr>ID = GetString entry ''name'',
                         Description = GetString entry ''description'',
                         Members = members\<rparr>, w'))))"

text \<open>
  The attribute map that \<^verbatim>\<open>UpdateGroup\<close> builds: \<^verbatim>\<open>description\<close> is set when
  \<^verbatim>\<open>description != ""\<close>, \<^verbatim>\<open>member\<close> when \<^verbatim>\<open>members != nil\<close>.
\<close>

definition UpdateGroup_attrs :: "string \<Rightarrow> strings \<Rightarrow> (string \<rightharpoonup> anyv)" where
  "UpdateGroup_attrs description members =
     (let attrs0 = Map.empty;
          attrs1 = (if description \<noteq> '''' then attrs0(''description'' \<mapsto> VStrings (Some [description]))
                    else attrs0);
          attrs2 = (if members \<noteq> None then attrs1(''member'' \<mapsto> VStrings members) else attrs1)
      in attrs2)"

definition UpdateGroup ::
  "stdlib \<Rightarrow> 'w Client \<Rightarrow> string \<Rightarrow> string \<Rightarrow> strings \<Rightarrow> 'w \<Rightarrow> error option \<times> 'w"
where
  "UpdateGroup lib c id' description members w =
     (let req = NewUpdateRequest (UpdateGroup_attrs description members)
      in case doRequest lib c ''PATCH'' (''/v1/group/'' @ id') (Some (UpdateRequestBody req)) w of
           (Inl err, w') \<Rightarrow> (Some (Wrapped ''update group'' err), w')
         | (Inr resp, w') \<Rightarrow> (None, w'))"

section \<open>Resource operations: the credential reset token\<close>

text \<open>
  Modelled from the spec: the body of \<^verbatim>\<open>Client.CreatePersonCredentialResetToken\<close> is
  missing from the sources (person.go ends with \<^verbatim>\<open>SetPersonPassword\<close>); only its calls
  in \<^verbatim>\<open>personResource.Create\<close> and \<^verbatim>\<open>personResource.Update\<close> are there, which pass the
  person's id and a pointer to the TTL and receive a token string and an error. The
  specification says that the operation "mints a one-time token with optional TTL
  override; returns the token string verbatim". It does not say which exchange mints the
  token nor how the token is read from the response, so both are parameters: \<open>exchange\<close>
  gives the method, the path and the payload of the request for an id and an optional
  TTL, and \<open>decodeToken\<close> reads the token from the response body. As every other
  operation of the client does, the model makes the request with \<^verbatim>\<open>doRequest\<close>, wraps
  its error and decodes the body with \<^verbatim>\<open>decodeResponse\<close>.
\<close>

definition CreatePersonCredentialResetToken ::
  "stdlib \<Rightarrow> 'w Client \<Rightarrow> (string \<Rightarrow> int option \<Rightarrow> string \<times> string \<times> body option)
     \<Rightarrow> (string \<Rightarrow> error + string) \<Rightarrow> string \<Rightarrow> int option \<Rightarrow> 'w \<Rightarrow> (error + string) \<times> 'w"
where
  "CreatePersonCredentialResetToken lib c exchange decodeToken id' ttl w =
     (case exchange id' ttl of
        (method, path, payload) \<Rightarrow>
          (case doRequest lib c method path payload w of
             (Inl err, w') \<Rightarrow> (Inl (Wrapped ''create person credential reset token'' err), w')
           | (Inr resp, w') \<Rightarrow>
               (case decodeResponse decodeToken resp of
                  Inl err \<Rightarrow> (Inl err, w')
                | Inr tok \<Rightarrow> (Inr tok, w'))))"

section \<open>A test double of the server and of the library\<close>

text \<open>
  Concrete inputs on which the operations are run. The world is the log of the requests
  the server has received, each as its method and URL. The server answers a fixed set
  of requests and answers 404 to any other. \<open>test_Decode_string\<close> reads a JSON string
  literal without escapes; \<open>test_Decode_Entry\<close> knows three documents, named by the bodies
  the server sends.
\<close>

definition grafana_entry :: Entry where
  "grafana_entry =
     \<lparr>Attrs = [''name'' \<mapsto> VSlice [VString ''grafana''],
               ''displayname'' \<mapsto> VSlice [VString ''Grafana''],
               ''oauth2_rs_origin'' \<mapsto> VSlice [VString ''https://x.example.com/''],
               ''oauth2_rs_basic_secret'' \<mapsto> VSlice []]\<rparr>"

definition developers_entry :: Entry where
  "developers_entry =
     \<lparr>Attrs = [''name'' \<mapsto> VSlice [VString ''developers''],
               ''description'' \<mapsto> VSlice [VString ''Dev team'']]\<rparr>"

definition archived_entry :: Entry where
  "archived_entry =
     \<lparr>Attrs = [''name'' \<mapsto> VSlice [VString ''archived''],
               ''member'' \<mapsto> VNil]\<rparr>"

definition test_Decode_string :: "string \<Rightarrow> error + string" where
  "test_Decode_string b =
     (if 2 \<le> length b \<and> hd b = CHR 0x22 \<and> last b = CHR 0x22 then Inr (butlast (tl b))
      else Inl (ErrorString ''invalid character''))"

definition test_Decode_Entry :: "string \<Rightarrow> error + Entry" where
  "test_Decode_Entry b =
     (if b = ''<grafana>'' then Inr grafana_entry
      else if b = ''<developers>'' then Inr developers_entry
      else if b = ''<archived>'' then Inr archived_entry
      else Inl (ErrorString ''invalid character''))"

definition test_lib :: stdlib where
  "test_lib =
     \<lparr>json_Marshal = (\<lambda>b. Inr ''{}''),
      http_NewRequestWithContext =
        (\<lambda>method url reqBody. Inr \<lparr>Method = method, URL = url, Header = Map.empty, ReqBody = reqBody\<rparr>),
      json_Decode_Entry = test_Decode_Entry,
      json_Decode_string = test_Decode_string\<rparr>"

definition test_answer :: "string \<Rightarrow> string \<Rightarrow> http_response" where
  "test_answer method url =
     (if method = ''POST'' \<and> url = ''https://idm/v1/oauth2/_basic''
        then \<lparr>StatusCode = 200, Body = ''null''\<rparr>
      else if method = ''GET'' \<and> url = ''https://idm/v1/oauth2/grafana/_basic_secret''
        then \<lparr>StatusCode = 200, Body = CHR 0x22 # ''s3cr3t'' @ [CHR 0x22]\<rparr>
      else if method = ''GET'' \<and> url = ''https://idm/v1/oauth2/legacy/_basic_secret''
        then \<lparr>StatusCode = 200, Body = [CHR 0x22, CHR 0x22]\<rparr>
      else if method = ''GET'' \<and> url = ''https://idm/v1/oauth2/grafana''
        then \<lparr>StatusCode = 200, Body = ''<grafana>''\<rparr>
      else if method = ''GET'' \<and> url = ''https://idm/v1/group/developers''
        then \<lparr>StatusCode = 200, Body = ''<developers>''\<rparr>
      else if method = ''GET'' \<and> url = ''https://idm/v1/group/archived''
        then \<lparr>StatusCode = 200, Body = ''<archived>''\<rparr>
      else if method = ''GET'' \<and> url = ''https://idm/v1/person/alice/_credential/_update_intent/3600''
        then \<lparr>StatusCode = 200, Body = CHR 0x22 # ''tok-1'' @ [CHR 0x22]\<rparr>
      else if method = ''GET'' \<and> url = ''https://idm/v1/person/alice/_credential/_update_intent''
        then \<lparr>StatusCode = 200, Body = CHR 0x22 # ''tok-2'' @ [CHR 0x22]\<rparr>
      else if method = ''PATCH''
        then \<lparr>StatusCode = 200, Body = ''null''\<rparr>
      else \<lparr>StatusCode = 404, Body = ''''\<rparr>)"

definition test_server ::
  "http_request \<Rightarrow> (string \<times> string) list \<Rightarrow> (error + http_response) \<times> (string \<times> string) list"
where
  "test_server req seen = (Inr (test_answer (Method req) (URL req)), seen @ [(Method req, URL req)])"

definition test_client :: "(string \<times> string) list Client" where
  "test_client = \<lparr>baseURL = ''https://idm'', token = ''t0k3n'', httpClient = test_server\<rparr>"

definition test_exchange :: "string \<Rightarrow> int option \<Rightarrow> string \<times> string \<times> body option" where
  "test_exchange id' ttl =
     (''GET'',
      ''/v1/person/'' @ id' @ ''/_credential/_update_intent''
        @ (case ttl of None \<Rightarrow> '''' | Some t \<Rightarrow> ''/'' @ fmt_d t),
      None)"

section \<open>Properties of the Attribute View\<close>

lemma GetStringSlice_loop_append:
  "GetStringSlice_loop vs acc = acc @ [s. VString s \<leftarrow> vs]"
proof (induction vs arbitrary: acc)
  case Nil
  show ?case by simp
next
  case (Cons v vs)
  show ?case
    by (cases v) (simp_all add: Cons.IH)
qed

text \<open>
  C1 (as amended). For every Entry and every key absent from its attribute map,
  \<open>GetString\<close> returns the empty string and \<open>GetStringSlice\<close> returns the nil slice,
  whose length is 0; it is the null marker of Go, not an explicit empty sequence.
\<close>

theorem absent_key_reads:
  assumes "Attrs e key = None"
  shows "GetString e key = '''' \<and> GetStringSlice e key = None \<and> len (GetStringSlice e key) = 0"
  using assms by (simp add: GetString_def GetStringSlice_def len_def)

theorem absent_key_reads_witness:
  "Attrs \<lparr>Attrs = [''name'' \<mapsto> VString ''alice'']\<rparr> ''mail'' = None
   \<and> GetString \<lparr>Attrs = [''name'' \<mapsto> VString ''alice'']\<rparr> ''mail'' = ''''
   \<and> GetStringSlice \<lparr>Attrs = [''name'' \<mapsto> VString ''alice'']\<rparr> ''mail'' = None"
proof -
  have absent: "Attrs \<lparr>Attrs = [''name'' \<mapsto> VString ''alice'']\<rparr> ''mail'' = None"
    by simp
  from absent_key_reads [OF absent] absent show ?thesis
    by simp
qed

text \<open>
  C1 as the specification states it fails: on an entry without the key \<open>mail\<close>,
  \<open>GetStringSlice\<close> does not return the explicit empty sequence.
\<close>

theorem absent_key_slice_counterexample:
  "Attrs \<lparr>Attrs = [''name'' \<mapsto> VString ''alice'']\<rparr> ''mail'' = None
   \<and> GetStringSlice \<lparr>Attrs = [''name'' \<mapsto> VString ''alice'']\<rparr> ''mail'' \<noteq> Some []"
  by (simp add: GetStringSlice_def)

text \<open>
  C2. For every Entry and every key whose stored value is a bare scalar string \<open>s\<close>,
  \<open>GetString\<close> returns \<open>s\<close> unchanged and \<open>GetStringSlice\<close> returns the one-element
  sequence \<open>[s]\<close>.
\<close>

theorem scalar_reads:
  assumes "Attrs e key = Some (VString s)"
  shows "GetString e key = s \<and> GetStringSlice e key = Some [s]"
  using assms by (simp add: GetString_def GetStringSlice_def)

theorem scalar_reads_witness:
  "Attrs \<lparr>Attrs = [''name'' \<mapsto> VString ''alice'']\<rparr> ''name'' = Some (VString ''alice'')
   \<and> GetString \<lparr>Attrs = [''name'' \<mapsto> VString ''alice'']\<rparr> ''name'' = ''alice''
   \<and> GetStringSlice \<lparr>Attrs = [''name'' \<mapsto> VString ''alice'']\<rparr> ''name'' = Some [''alice'']"
proof -
  have stored: "Attrs \<lparr>Attrs = [''name'' \<mapsto> VString ''alice'']\<rparr> ''name'' = Some (VString ''alice'')"
    by simp
  from scalar_reads [OF stored] stored show ?thesis
    by simp
qed

text \<open>
  C10. For every Entry and every key stored as a sequence of heterogeneous values,
  \<open>GetStringSlice\<close> returns exactly the string-typed elements in their original order,
  every other element being dropped; and \<open>GetString\<close> on such a key returns the empty
  string whenever the first element is not a string, whatever follows it.
\<close>

theorem heterogeneous_sequence_reads:
  assumes "Attrs e key = Some (VSlice vs)"
  shows "GetStringSlice e key = Some [s. VString s \<leftarrow> vs]
         \<and> ((\<forall>s. hd vs \<noteq> VString s) \<and> vs \<noteq> [] \<longrightarrow> GetString e key = '''')"
proof
  show "GetStringSlice e key = Some [s. VString s \<leftarrow> vs]"
    using assms by (simp add: GetStringSlice_def GetStringSlice_loop_append)
next
  show "(\<forall>s. hd vs \<noteq> VString s) \<and> vs \<noteq> [] \<longrightarrow> GetString e key = ''''"
  proof
    assume first: "(\<forall>s. hd vs \<noteq> VString s) \<and> vs \<noteq> []"
    then obtain v rest where vs: "vs = v # rest"
      by (cases vs) auto
    with first have "\<forall>s. v \<noteq> VString s"
      by simp
    then show "GetString e key = ''''"
      using assms vs by (cases v) (simp_all add: GetString_def)
  qed
qed

theorem heterogeneous_sequence_reads_witness:
  "GetStringSlice \<lparr>Attrs = [''member'' \<mapsto> VSlice [VFloat64 7, VString ''alice'', VNil, VString ''bob'']]\<rparr>
     ''member'' = Some [''alice'', ''bob'']
   \<and> GetString \<lparr>Attrs = [''member'' \<mapsto> VSlice [VFloat64 7, VString ''alice'', VNil, VString ''bob'']]\<rparr>
     ''member'' = ''''"
proof -
  let ?vs = "[VFloat64 7, VString ''alice'', VNil, VString ''bob'']"
  let ?e = "\<lparr>Attrs = [''member'' \<mapsto> VSlice ?vs]\<rparr>"
  have stored: "Attrs ?e ''member'' = Some (VSlice ?vs)"
    by simp
  have first: "(\<forall>s. hd ?vs \<noteq> VString s) \<and> ?vs \<noteq> []"
    by simp
  from heterogeneous_sequence_reads [OF stored] first show ?thesis
    by simp
qed

section \<open>Properties of the Transport\<close>

text \<open>
  C3. For every HTTP response, \<open>checkResponse\<close> returns success exactly when the status
  code is in [200,300); it returns the not-found error for status 404, the unauthorized
  error for 401, the forbidden error for 403, and for every other status a generic
  failure whose message ends with the response body text when the body is non-empty
  (and names only the status when the body is empty).
\<close>

theorem checkResponse_classifies:
  "(checkResponse resp = None \<longleftrightarrow> 200 \<le> StatusCode resp \<and> StatusCode resp < 300)
   \<and> (StatusCode resp = 404 \<longrightarrow> checkResponse resp = Some ErrNotFound)
   \<and> (StatusCode resp = 401 \<longrightarrow> checkResponse resp = Some ErrUnauthorized)
   \<and> (StatusCode resp = 403 \<longrightarrow> checkResponse resp = Some ErrForbidden)
   \<and> (\<not> (200 \<le> StatusCode resp \<and> StatusCode resp < 300)
        \<and> StatusCode resp \<noteq> 404 \<and> StatusCode resp \<noteq> 401 \<and> StatusCode resp \<noteq> 403
      \<longrightarrow> checkResponse resp =
            Some (ErrorString (''API error (HTTP '' @ fmt_d (StatusCode resp) @ '')''
                               @ (if Body resp = [] then [] else '': '' @ Body resp))))"
proof -
  consider (ok) "200 \<le> StatusCode resp \<and> StatusCode resp < 300"
    | (nf) "StatusCode resp = 404" | (ua) "StatusCode resp = 401" | (fb) "StatusCode resp = 403"
    | (other) "\<not> (200 \<le> StatusCode resp \<and> StatusCode resp < 300)"
        "StatusCode resp \<noteq> 404" "StatusCode resp \<noteq> 401" "StatusCode resp \<noteq> 403"
    by blast
  then show ?thesis
  proof cases
    case ok
    then show ?thesis by (simp add: checkResponse_def)
  next
    case nf
    then show ?thesis by (simp add: checkResponse_def StatusNotFound_def)
  next
    case ua
    then show ?thesis
      by (simp add: checkResponse_def StatusNotFound_def StatusUnauthorized_def)
  next
    case fb
    then show ?thesis
      by (simp add: checkResponse_def StatusNotFound_def StatusUnauthorized_def
          StatusForbidden_def)
  next
    case other
    then show ?thesis
      by (simp add: checkResponse_def StatusNotFound_def StatusUnauthorized_def
          StatusForbidden_def Let_def)
  qed
qed

lemma fmt_d_500: "fmt_d 500 = ''500''"
  by (simp add: fmt_d_def fmt_d_nat.simps [of 500] fmt_d_nat.simps [of 50]
      fmt_d_nat.simps [of 5])

theorem checkResponse_classifies_witness:
  "checkResponse \<lparr>StatusCode = 204, Body = ''''\<rparr> = None
   \<and> checkResponse \<lparr>StatusCode = 404, Body = ''no such entry''\<rparr> = Some ErrNotFound
   \<and> checkResponse \<lparr>StatusCode = 401, Body = ''''\<rparr> = Some ErrUnauthorized
   \<and> checkResponse \<lparr>StatusCode = 403, Body = ''''\<rparr> = Some ErrForbidden
   \<and> checkResponse \<lparr>StatusCode = 500, Body = ''boom''\<rparr>
       = Some (ErrorString ''API error (HTTP 500): boom'')
   \<and> checkResponse \<lparr>StatusCode = 500, Body = ''''\<rparr> = Some (ErrorString ''API error (HTTP 500)'')"
  using checkResponse_classifies [of "\<lparr>StatusCode = 204, Body = ''''\<rparr>"]
    checkResponse_classifies [of "\<lparr>StatusCode = 404, Body = ''no such entry''\<rparr>"]
    checkResponse_classifies [of "\<lparr>StatusCode = 401, Body = ''''\<rparr>"]
    checkResponse_classifies [of "\<lparr>StatusCode = 403, Body = ''''\<rparr>"]
    checkResponse_classifies [of "\<lparr>StatusCode = 500, Body = ''boom''\<rparr>"]
    checkResponse_classifies [of "\<lparr>StatusCode = 500, Body = ''''\<rparr>"]
  by (simp add: fmt_d_500)

section \<open>Properties of the resource operations\<close>

text \<open>What a request to the test double returns.\<close>

lemma test_doRequest:
  "doRequest test_lib test_client method path body seen =
     (case checkResponse (test_answer method (''https://idm'' @ path)) of
        Some err \<Rightarrow> (Inl err, seen @ [(method, ''https://idm'' @ path)])
      | None \<Rightarrow> (Inr (test_answer method (''https://idm'' @ path)), seen @ [(method, ''https://idm'' @ path)]))"
  by (cases body) (simp_all add: doRequest_def test_lib_def test_client_def test_server_def Let_def split: option.splits)

subsection \<open>Reading an OAuth2 client\<close>

lemma trim_slash:
  "(if length s > 0 \<and> s ! (length s - 1) = c then take (length s - 1) s else s)
     = (if s \<noteq> [] \<and> last s = c then butlast s else s)"
  by (cases "s = []") (simp_all add: last_conv_nth butlast_conv_take)

lemma GetOAuth2Client_decoded:
  assumes "doRequest lib c ''GET'' (''/v1/oauth2/'' @ name) None w = (Inr resp, w')"
    and "json_Decode_Entry lib (Body resp) = Inr entry"
  obtains cl where "GetOAuth2Client lib c name w = (Inr cl, w')"
    and "IsPublic cl = (Attrs entry ''oauth2_rs_basic_secret'' = None)"
    and "Origin cl = (if GetString entry ''oauth2_rs_origin'' \<noteq> []
                          \<and> last (GetString entry ''oauth2_rs_origin'') = CHR ''/''
                      then butlast (GetString entry ''oauth2_rs_origin'')
                      else GetString entry ''oauth2_rs_origin'')"
proof -
  let ?origin0 = "GetString entry ''oauth2_rs_origin''"
  let ?name0 = "GetString entry ''name''"
  let ?cl = "\<lparr>Name = (if ?name0 = '''' then GetString entry ''oauth2_rs_name'' else ?name0),
            DisplayName = GetString entry ''displayname'',
            Origin = (if length ?origin0 > 0 \<and> ?origin0 ! (length ?origin0 - 1) = CHR ''/''
                      then take (length ?origin0 - 1) ?origin0 else ?origin0),
            RedirectURIs = GetStringSlice entry ''oauth2_rs_origin_landing'',
            ScopeMaps = None,
            ClientID = (if ?name0 = '''' then GetString entry ''oauth2_rs_name'' else ?name0),
            ClientSecret = '''',
            IsPublic = (Attrs entry ''oauth2_rs_basic_secret'' = None)\<rparr>"
  have run: "GetOAuth2Client lib c name w = (Inr ?cl, w')"
    using assms unfolding GetOAuth2Client_def decodeResponse_def Let_def by simp
  have pub: "IsPublic ?cl = (Attrs entry ''oauth2_rs_basic_secret'' = None)"
    by (simp only: OAuth2Client.select_convs)
  have orig: "Origin ?cl = (if ?origin0 \<noteq> [] \<and> last ?origin0 = CHR ''/'' then butlast ?origin0 else ?origin0)"
    by (simp only: OAuth2Client.select_convs trim_slash)
  from run pub orig show thesis
    by (rule that)
qed

text \<open>
  C4. For every decoded OAuth2 entry, \<open>GetOAuth2Client\<close> classifies the client as public
  exactly when the key \<open>oauth2_rs_basic_secret\<close> is absent from the attribute map, and
  as confidential whenever that key is present, whatever its value.
\<close>

theorem GetOAuth2Client_public_iff_secret_key_absent:
  assumes "doRequest lib c ''GET'' (''/v1/oauth2/'' @ name) None w = (Inr resp, w')"
    and "json_Decode_Entry lib (Body resp) = Inr entry"
  shows "\<exists>cl. GetOAuth2Client lib c name w = (Inr cl, w')
           \<and> (IsPublic cl \<longleftrightarrow> Attrs entry ''oauth2_rs_basic_secret'' = None)
           \<and> (\<forall>v. Attrs entry ''oauth2_rs_basic_secret'' = Some v \<longrightarrow> \<not> IsPublic cl)"
proof -
  from assms obtain cl where run: "GetOAuth2Client lib c name w = (Inr cl, w')"
    and pub: "IsPublic cl = (Attrs entry ''oauth2_rs_basic_secret'' = None)"
    by (rule GetOAuth2Client_decoded)
  have conf: "\<forall>v. Attrs entry ''oauth2_rs_basic_secret'' = Some v \<longrightarrow> \<not> IsPublic cl"
    unfolding pub by simp
  from run pub conf show ?thesis
    by (intro exI conjI)
qed

text \<open>
  C5. For every decoded OAuth2 entry, the origin returned by \<open>GetOAuth2Client\<close> is the
  stored origin (what \<open>GetString\<close> reads under \<open>oauth2_rs_origin\<close>) with exactly one
  trailing slash removed when the stored value ends in a slash, and the stored value
  unchanged otherwise.
\<close>

theorem GetOAuth2Client_trims_one_slash:
  assumes "doRequest lib c ''GET'' (''/v1/oauth2/'' @ name) None w = (Inr resp, w')"
    and "json_Decode_Entry lib (Body resp) = Inr entry"
  shows "\<exists>cl. GetOAuth2Client lib c name w = (Inr cl, w')
           \<and> (\<forall>s. GetString entry ''oauth2_rs_origin'' = s @ ''/'' \<longrightarrow> Origin cl = s)
           \<and> ((\<nexists>s. GetString entry ''oauth2_rs_origin'' = s @ ''/'')
                \<longrightarrow> Origin cl = GetString entry ''oauth2_rs_origin'')"
proof -
  define stored where "stored = GetString entry ''oauth2_rs_origin''"
  from assms obtain cl where run: "GetOAuth2Client lib c name w = (Inr cl, w')"
    and orig: "Origin cl = (if stored \<noteq> [] \<and> last stored = CHR ''/'' then butlast stored else stored)"
    unfolding stored_def by (rule GetOAuth2Client_decoded)
  have one: "\<forall>s. stored = s @ ''/'' \<longrightarrow> Origin cl = s"
  proof (intro allI impI)
    fix s
    assume "stored = s @ ''/''"
    then show "Origin cl = s"
      by (simp add: orig)
  qed
  have other: "(\<nexists>s. stored = s @ ''/'') \<longrightarrow> Origin cl = stored"
  proof
    assume none: "\<nexists>s. stored = s @ ''/''"
    have "\<not> (stored \<noteq> [] \<and> last stored = CHR ''/'')"
    proof
      assume "stored \<noteq> [] \<and> last stored = CHR ''/''"
      then have "stored = butlast stored @ ''/''"
        using append_butlast_last_id [of stored] by simp
      with none show False
        by blast
    qed
    then show "Origin cl = stored"
      unfolding orig by (rule if_not_P)
  qed
  from run one other show ?thesis
    unfolding stored_def by (intro exI conjI)
qed

lemma test_get_grafana:
  "doRequest test_lib test_client ''GET'' (''/v1/oauth2/'' @ ''grafana'') None [] =
     (Inr \<lparr>StatusCode = 200, Body = ''<grafana>''\<rparr>, [(''GET'', ''https://idm/v1/oauth2/grafana'')])"
  by (simp add: test_doRequest test_answer_def checkResponse_def)

lemma test_decode_grafana:
  "json_Decode_Entry test_lib (Body \<lparr>StatusCode = 200, Body = ''<grafana>''\<rparr>) = Inr grafana_entry"
  by (simp add: test_lib_def test_Decode_Entry_def)

theorem GetOAuth2Client_public_iff_secret_key_absent_witness:
  "\<exists>cl. GetOAuth2Client test_lib test_client ''grafana'' [] = (Inr cl, [(''GET'', ''https://idm/v1/oauth2/grafana'')])
     \<and> Attrs grafana_entry ''oauth2_rs_basic_secret'' = Some (VSlice [])
     \<and> \<not> IsPublic cl"
proof -
  from GetOAuth2Client_public_iff_secret_key_absent [OF test_get_grafana test_decode_grafana]
  obtain cl where run: "GetOAuth2Client test_lib test_client ''grafana'' [] = (Inr cl, [(''GET'', ''https://idm/v1/oauth2/grafana'')])"
    and conf: "\<forall>v. Attrs grafana_entry ''oauth2_rs_basic_secret'' = Some v \<longrightarrow> \<not> IsPublic cl"
    by (elim exE conjE)
  have key: "Attrs grafana_entry ''oauth2_rs_basic_secret'' = Some (VSlice [])"
    by (simp add: grafana_entry_def)
  with conf have "\<not> IsPublic cl"
    by (elim allE impE)
  with run key show ?thesis
    by (intro exI conjI)
qed

theorem GetOAuth2Client_trims_one_slash_witness:
  "\<exists>cl. GetOAuth2Client test_lib test_client ''grafana'' [] = (Inr cl, [(''GET'', ''https://idm/v1/oauth2/grafana'')])
     \<and> GetString grafana_entry ''oauth2_rs_origin'' = ''https://x.example.com/''
     \<and> Origin cl = ''https://x.example.com''"
proof -
  have stored: "GetString grafana_entry ''oauth2_rs_origin'' = ''https://x.example.com'' @ ''/''"
    by (simp add: grafana_entry_def GetString_def)
  from GetOAuth2Client_trims_one_slash [OF test_get_grafana test_decode_grafana]
  obtain cl where run: "GetOAuth2Client test_lib test_client ''grafana'' [] = (Inr cl, [(''GET'', ''https://idm/v1/oauth2/grafana'')])"
    and trim: "\<forall>s. GetString grafana_entry ''oauth2_rs_origin'' = s @ ''/'' \<longrightarrow> Origin cl = s"
    by (elim exE conjE)
  from trim stored have "Origin cl = ''https://x.example.com''"
    by (elim allE impE)
  moreover from stored have "GetString grafana_entry ''oauth2_rs_origin'' = ''https://x.example.com/''"
    by simp
  ultimately show ?thesis
    using run by (intro exI conjI)
qed

subsection \<open>Reading a group\<close>

lemma GetGroup_decoded:
  assumes "doRequest lib c ''GET'' (''/v1/group/'' @ id') None w = (Inr resp, w')"
    and "json_Decode_Entry lib (Body resp) = Inr entry"
  obtains g where "GetGroup lib c id' w = (Inr g, w')"
    and "Members g = (if GetStringSlice entry ''member'' = None then Some []
                      else GetStringSlice entry ''member'')"
proof -
  let ?members0 = "GetStringSlice entry ''member''"
  let ?g = "\<lparr>ID = GetString entry ''name'', Description = GetString entry ''description'',
            Members = (if ?members0 = None then Some [] else ?members0)\<rparr>"
  have run: "GetGroup lib c id' w = (Inr ?g, w')"
    using assms unfolding GetGroup_def decodeResponse_def Let_def by simp
  have mem: "Members ?g = (if ?members0 = None then Some [] else ?members0)"
    by (simp only: Group.select_convs)
  from run mem show thesis
    by (rule that)
qed

text \<open>
  C6. For every decoded group entry, the \<open>Members\<close> field of the group returned by
  \<open>GetGroup\<close> is never nil. \<open>GetGroup\<close> returns the explicit empty sequence whenever the
  \<open>member\<close> attribute is absent or yields no string elements, that is, whenever
  \<open>GetStringSlice\<close> reads nil or the empty sequence under \<open>member\<close>: the attribute is a
  sequence with no string element, or a value that is neither a sequence nor a string
  (null, a number, a boolean, an object). In every other case \<open>Members\<close> is the
  sequence that \<open>GetStringSlice\<close> reads.
\<close>

theorem GetGroup_members_never_nil:
  assumes "doRequest lib c ''GET'' (''/v1/group/'' @ id') None w = (Inr resp, w')"
    and "json_Decode_Entry lib (Body resp) = Inr entry"
  shows "\<exists>g. GetGroup lib c id' w = (Inr g, w')
           \<and> Members g \<noteq> None
           \<and> (Attrs entry ''member'' = None \<longrightarrow> Members g = Some [])
           \<and> (\<forall>vs. Attrs entry ''member'' = Some (VSlice vs) \<and> [s. VString s \<leftarrow> vs] = []
                 \<longrightarrow> Members g = Some [])
           \<and> (\<forall>v. Attrs entry ''member'' = Some v
                    \<and> (\<forall>vs. v \<noteq> VSlice vs) \<and> (\<forall>s. v \<noteq> VString s) \<and> (\<forall>ss. v \<noteq> VStrings ss)
                 \<longrightarrow> Members g = Some [])
           \<and> (GetStringSlice entry ''member'' = None \<or> GetStringSlice entry ''member'' = Some []
                 \<longrightarrow> Members g = Some [])
           \<and> (\<forall>xs. GetStringSlice entry ''member'' = Some xs \<longrightarrow> Members g = Some xs)"
proof -
  from assms obtain g where run: "GetGroup lib c id' w = (Inr g, w')"
    and mem: "Members g = (if GetStringSlice entry ''member'' = None then Some []
                           else GetStringSlice entry ''member'')"
    by (rule GetGroup_decoded)
  have never: "Members g \<noteq> None"
    unfolding mem by simp
  have absent: "Attrs entry ''member'' = None \<longrightarrow> Members g = Some []"
    unfolding mem by (simp add: GetStringSlice_def)
  have no_strings: "\<forall>vs. Attrs entry ''member'' = Some (VSlice vs) \<and> [s. VString s \<leftarrow> vs] = []
      \<longrightarrow> Members g = Some []"
    unfolding mem by (simp add: GetStringSlice_def GetStringSlice_loop_append)
  have other_type: "\<forall>v. Attrs entry ''member'' = Some v
        \<and> (\<forall>vs. v \<noteq> VSlice vs) \<and> (\<forall>s. v \<noteq> VString s) \<and> (\<forall>ss. v \<noteq> VStrings ss)
      \<longrightarrow> Members g = Some []"
  proof (intro allI impI)
    fix v
    assume v: "Attrs entry ''member'' = Some v
        \<and> (\<forall>vs. v \<noteq> VSlice vs) \<and> (\<forall>s. v \<noteq> VString s) \<and> (\<forall>ss. v \<noteq> VStrings ss)"
    then have "GetStringSlice entry ''member'' = None"
      by (cases v) (simp_all add: GetStringSlice_def)
    then show "Members g = Some []"
      unfolding mem by simp
  qed
  have nothing_read: "GetStringSlice entry ''member'' = None \<or> GetStringSlice entry ''member'' = Some []
      \<longrightarrow> Members g = Some []"
    unfolding mem by auto
  have read: "\<forall>xs. GetStringSlice entry ''member'' = Some xs \<longrightarrow> Members g = Some xs"
    unfolding mem by simp
  from run never absent no_strings other_type nothing_read read show ?thesis
    by (intro exI conjI)
qed

lemma test_get_developers:
  "doRequest test_lib test_client ''GET'' (''/v1/group/'' @ ''developers'') None [] =
     (Inr \<lparr>StatusCode = 200, Body = ''<developers>''\<rparr>, [(''GET'', ''https://idm/v1/group/developers'')])"
  by (simp add: test_doRequest test_answer_def checkResponse_def)

lemma test_decode_developers:
  "json_Decode_Entry test_lib (Body \<lparr>StatusCode = 200, Body = ''<developers>''\<rparr>) = Inr developers_entry"
  by (simp add: test_lib_def test_Decode_Entry_def)

lemma test_get_archived:
  "doRequest test_lib test_client ''GET'' (''/v1/group/'' @ ''archived'') None [] =
     (Inr \<lparr>StatusCode = 200, Body = ''<archived>''\<rparr>, [(''GET'', ''https://idm/v1/group/archived'')])"
  by (simp add: test_doRequest test_answer_def checkResponse_def)

lemma test_decode_archived:
  "json_Decode_Entry test_lib (Body \<lparr>StatusCode = 200, Body = ''<archived>''\<rparr>) = Inr archived_entry"
  by (simp add: test_lib_def test_Decode_Entry_def)

theorem GetGroup_members_never_nil_witness:
  "(\<exists>g. GetGroup test_lib test_client ''developers'' [] = (Inr g, [(''GET'', ''https://idm/v1/group/developers'')])
     \<and> Attrs developers_entry ''member'' = None
     \<and> Members g = Some [])
   \<and> (\<exists>g. GetGroup test_lib test_client ''archived'' [] = (Inr g, [(''GET'', ''https://idm/v1/group/archived'')])
     \<and> Attrs archived_entry ''member'' = Some VNil
     \<and> GetStringSlice archived_entry ''member'' = None
     \<and> Members g = Some [])"
proof
  from GetGroup_members_never_nil [OF test_get_developers test_decode_developers]
  obtain g where run: "GetGroup test_lib test_client ''developers'' [] = (Inr g, [(''GET'', ''https://idm/v1/group/developers'')])"
    and absent: "Attrs developers_entry ''member'' = None \<longrightarrow> Members g = Some []"
    by (elim exE conjE)
  have key: "Attrs developers_entry ''member'' = None"
    by (simp add: developers_entry_def)
  with absent have "Members g = Some []"
    by (elim impE)
  with run key show "\<exists>g. GetGroup test_lib test_client ''developers'' [] = (Inr g, [(''GET'', ''https://idm/v1/group/developers'')])
     \<and> Attrs developers_entry ''member'' = None
     \<and> Members g = Some []"
    by (intro exI conjI)
next
  from GetGroup_members_never_nil [OF test_get_archived test_decode_archived]
  obtain g where run: "GetGroup test_lib test_client ''archived'' [] = (Inr g, [(''GET'', ''https://idm/v1/group/archived'')])"
    and other_type: "\<forall>v. Attrs archived_entry ''member'' = Some v
        \<and> (\<forall>vs. v \<noteq> VSlice vs) \<and> (\<forall>s. v \<noteq> VString s) \<and> (\<forall>ss. v \<noteq> VStrings ss)
      \<longrightarrow> Members g = Some []"
    and nothing_read: "GetStringSlice archived_entry ''member'' = None
        \<or> GetStringSlice archived_entry ''member'' = Some []
      \<longrightarrow> Members g = Some []"
    by (elim exE conjE)
  have key: "Attrs archived_entry ''member'' = Some VNil"
    by (simp add: archived_entry_def)
  have read: "GetStringSlice archived_entry ''member'' = None"
    by (simp add: archived_entry_def GetStringSlice_def)
  have null: "Attrs archived_entry ''member'' = Some VNil
        \<and> (\<forall>vs. VNil \<noteq> VSlice vs) \<and> (\<forall>s. VNil \<noteq> VString s) \<and> (\<forall>ss. VNil \<noteq> VStrings ss)"
    using key by simp
  from other_type null have members: "Members g = Some []"
    by (elim allE impE)
  from nothing_read read have "Members g = Some []"
    by simp
  with run key read show "\<exists>g. GetGroup test_lib test_client ''archived'' [] = (Inr g, [(''GET'', ''https://idm/v1/group/archived'')])
     \<and> Attrs archived_entry ''member'' = Some VNil
     \<and> GetStringSlice archived_entry ''member'' = None
     \<and> Members g = Some []"
    by (intro exI conjI)
qed

subsection \<open>Partial updates\<close>

lemma UpdatePerson_attrs_dom:
  "dom (UpdatePerson_attrs displayName mail) =
     {k. k = ''displayname'' \<and> displayName \<noteq> '''' \<or> k = ''mail'' \<and> mail \<noteq> None}"
  by (auto simp add: UpdatePerson_attrs_def Let_def split: if_splits)

lemma UpdateGroup_attrs_dom:
  "dom (UpdateGroup_attrs description members) =
     {k. k = ''description'' \<and> description \<noteq> '''' \<or> k = ''member'' \<and> members \<noteq> None}"
  by (auto simp add: UpdateGroup_attrs_def Let_def split: if_splits)

lemma UpdateOAuth2Client_attrs_dom:
  "dom (UpdateOAuth2Client_attrs displayName origin redirectURIs) =
     {k. k = ''displayname'' \<and> displayName \<noteq> ''''
         \<or> k = ''oauth2_rs_origin'' \<and> origin \<noteq> ''''
         \<or> k = ''oauth2_rs_origin_landing'' \<and> redirectURIs \<noteq> None}"
  by (auto simp add: UpdateOAuth2Client_attrs_def Let_def split: if_splits)

lemma UpdatePerson_request:
  "UpdatePerson lib c id' displayName mail w =
     (case doRequest lib c ''PATCH'' (''/v1/person/'' @ id')
             (Some (UpdateRequestBody (UpdateRequest (UpdatePerson_attrs displayName mail)))) w of
        (Inl err, w') \<Rightarrow> (Some (Wrapped ''update person'' err), w')
      | (Inr resp, w') \<Rightarrow> (None, w'))"
  by (simp add: UpdatePerson_def NewUpdateRequest_def)

lemma UpdateGroup_request:
  "UpdateGroup lib c id' description members w =
     (case doRequest lib c ''PATCH'' (''/v1/group/'' @ id')
             (Some (UpdateRequestBody (UpdateRequest (UpdateGroup_attrs description members)))) w of
        (Inl err, w') \<Rightarrow> (Some (Wrapped ''update group'' err), w')
      | (Inr resp, w') \<Rightarrow> (None, w'))"
  by (simp add: UpdateGroup_def NewUpdateRequest_def)

lemma UpdateOAuth2Client_request:
  "UpdateOAuth2Client lib c name displayName origin redirectURIs w =
     (case doRequest lib c ''PATCH'' (''/v1/oauth2/'' @ name)
             (Some (UpdateRequestBody (UpdateRequest
                (UpdateOAuth2Client_attrs displayName origin redirectURIs)))) w of
        (Inl err, w') \<Rightarrow> (Some (Wrapped ''update oauth2 client'' err), w')
      | (Inr resp, w') \<Rightarrow> (None, w'))"
  by (simp add: UpdateOAuth2Client_def NewUpdateRequest_def)

text \<open>
  C7. \<open>UpdatePerson\<close>, \<open>UpdateGroup\<close> and \<open>UpdateOAuth2Client\<close> each make one PATCH
  request whose payload is the \<open>UpdateRequest\<close> built from the optional fields. A field
  given as the empty string (displayName, description, origin) or as nil (mail,
  members, redirectURIs) is no key of the \<open>attrs\<close> map of that payload: the keys of the
  map are exactly those of the non-empty and non-nil fields.
\<close>

theorem Update_omits_unset_fields:
  "UpdatePerson lib c pid displayName mail w =
     (case doRequest lib c ''PATCH'' (''/v1/person/'' @ pid)
             (Some (UpdateRequestBody (UpdateRequest (UpdatePerson_attrs displayName mail)))) w of
        (Inl err, w') \<Rightarrow> (Some (Wrapped ''update person'' err), w')
      | (Inr resp, w') \<Rightarrow> (None, w'))
   \<and> (displayName = '''' \<longrightarrow> ''displayname'' \<notin> dom (UpdatePerson_attrs displayName mail))
   \<and> (mail = None \<longrightarrow> ''mail'' \<notin> dom (UpdatePerson_attrs displayName mail))
   \<and> dom (UpdatePerson_attrs displayName mail) =
        {k. k = ''displayname'' \<and> displayName \<noteq> '''' \<or> k = ''mail'' \<and> mail \<noteq> None}
   \<and> UpdateGroup lib c gid description members w =
     (case doRequest lib c ''PATCH'' (''/v1/group/'' @ gid)
             (Some (UpdateRequestBody (UpdateRequest (UpdateGroup_attrs description members)))) w of
        (Inl err, w') \<Rightarrow> (Some (Wrapped ''update group'' err), w')
      | (Inr resp, w') \<Rightarrow> (None, w'))
   \<and> (description = '''' \<longrightarrow> ''description'' \<notin> dom (UpdateGroup_attrs description members))
   \<and> (members = None \<longrightarrow> ''member'' \<notin> dom (UpdateGroup_attrs description members))
   \<and> dom (UpdateGroup_attrs description members) =
        {k. k = ''description'' \<and> description \<noteq> '''' \<or> k = ''member'' \<and> members \<noteq> None}
   \<and> UpdateOAuth2Client lib c name clientDisplayName origin redirectURIs w =
     (case doRequest lib c ''PATCH'' (''/v1/oauth2/'' @ name)
             (Some (UpdateRequestBody (UpdateRequest
                (UpdateOAuth2Client_attrs clientDisplayName origin redirectURIs)))) w of
        (Inl err, w') \<Rightarrow> (Some (Wrapped ''update oauth2 client'' err), w')
      | (Inr resp, w') \<Rightarrow> (None, w'))
   \<and> (clientDisplayName = '''' \<longrightarrow>
        ''displayname'' \<notin> dom (UpdateOAuth2Client_attrs clientDisplayName origin redirectURIs))
   \<and> (origin = '''' \<longrightarrow>
        ''oauth2_rs_origin'' \<notin> dom (UpdateOAuth2Client_attrs clientDisplayName origin redirectURIs))
   \<and> (redirectURIs = None \<longrightarrow>
        ''oauth2_rs_origin_landing'' \<notin> dom (UpdateOAuth2Client_attrs clientDisplayName origin redirectURIs))
   \<and> dom (UpdateOAuth2Client_attrs clientDisplayName origin redirectURIs) =
        {k. k = ''displayname'' \<and> clientDisplayName \<noteq> ''''
            \<or> k = ''oauth2_rs_origin'' \<and> origin \<noteq> ''''
            \<or> k = ''oauth2_rs_origin_landing'' \<and> redirectURIs \<noteq> None}"
proof -
  have person: "displayName = '''' \<longrightarrow> ''displayname'' \<notin> dom (UpdatePerson_attrs displayName mail)"
    "mail = None \<longrightarrow> ''mail'' \<notin> dom (UpdatePerson_attrs displayName mail)"
    unfolding UpdatePerson_attrs_dom by simp_all
  have grp: "description = '''' \<longrightarrow> ''description'' \<notin> dom (UpdateGroup_attrs description members)"
    "members = None \<longrightarrow> ''member'' \<notin> dom (UpdateGroup_attrs description members)"
    unfolding UpdateGroup_attrs_dom by simp_all
  have oauth2: "clientDisplayName = '''' \<longrightarrow>
        ''displayname'' \<notin> dom (UpdateOAuth2Client_attrs clientDisplayName origin redirectURIs)"
    "origin = '''' \<longrightarrow>
        ''oauth2_rs_origin'' \<notin> dom (UpdateOAuth2Client_attrs clientDisplayName origin redirectURIs)"
    "redirectURIs = None \<longrightarrow>
        ''oauth2_rs_origin_landing'' \<notin> dom (UpdateOAuth2Client_attrs clientDisplayName origin redirectURIs)"
    unfolding UpdateOAuth2Client_attrs_dom by simp_all
  show ?thesis
    by (intro conjI UpdatePerson_request UpdateGroup_request UpdateOAuth2Client_request
        UpdatePerson_attrs_dom UpdateGroup_attrs_dom UpdateOAuth2Client_attrs_dom
        person grp oauth2)
qed

theorem Update_omits_unset_fields_witness:
  "UpdatePerson test_lib test_client ''alice'' '''' None []
     = (None, [(''PATCH'', ''https://idm/v1/person/alice'')])
   \<and> dom (UpdatePerson_attrs '''' None) = {}
   \<and> UpdateGroup test_lib test_client ''developers'' '''' None []
     = (None, [(''PATCH'', ''https://idm/v1/group/developers'')])
   \<and> dom (UpdateGroup_attrs '''' None) = {}
   \<and> UpdateOAuth2Client test_lib test_client ''grafana'' '''' '''' None []
     = (None, [(''PATCH'', ''https://idm/v1/oauth2/grafana'')])
   \<and> dom (UpdateOAuth2Client_attrs '''' '''' None) = {}
   \<and> dom (UpdatePerson_attrs ''Alice'' None) = {''displayname''}
   \<and> dom (UpdateGroup_attrs '''' (Some [])) = {''member''}"
  using Update_omits_unset_fields [where lib = test_lib and c = test_client and w = "[]"
      and pid = "''alice''" and displayName = "''''" and mail = None
      and gid = "''developers''" and description = "''''" and members = None
      and name = "''grafana''" and clientDisplayName = "''''" and origin = "''''"
      and redirectURIs = None]
    Update_omits_unset_fields [where lib = test_lib and c = test_client and w = "[]"
      and pid = "''alice''" and displayName = "''Alice''" and mail = None
      and gid = "''developers''" and description = "''''" and members = "Some []"
      and name = "''grafana''" and clientDisplayName = "''''" and origin = "''''"
      and redirectURIs = None]
  by (simp add: test_doRequest test_answer_def checkResponse_def)

subsection \<open>Creating a confidential OAuth2 client\<close>

lemma CreateOAuth2BasicClient_create_fails:
  assumes "doRequest lib c ''POST'' ''/v1/oauth2/_basic''
             (Some (CreateRequestBody (CreateRequest
                [''name'' \<mapsto> VStrings (Some [name]),
                 ''displayname'' \<mapsto> VStrings (Some [displayName]),
                 ''oauth2_rs_origin_landing'' \<mapsto> VStrings (Some [origin])]))) w = (Inl err, w1)"
  shows "CreateOAuth2BasicClient lib c name displayName origin w
           = (Inl (Wrapped ''create oauth2 basic client'' err), w1)"
  using assms unfolding CreateOAuth2BasicClient_def NewCreateRequest_def Let_def by simp

lemma CreateOAuth2BasicClient_fetch_fails:
  assumes "doRequest lib c ''POST'' ''/v1/oauth2/_basic''
             (Some (CreateRequestBody (CreateRequest
                [''name'' \<mapsto> VStrings (Some [name]),
                 ''displayname'' \<mapsto> VStrings (Some [displayName]),
                 ''oauth2_rs_origin_landing'' \<mapsto> VStrings (Some [origin])]))) w = (Inr resp, w1)"
    and "GetOAuth2BasicSecret lib c name w1 = (Inl err, w2)"
  shows "CreateOAuth2BasicClient lib c name displayName origin w
           = (Inl (Wrapped ''retrieve client secret'' err), w2)"
  using assms unfolding CreateOAuth2BasicClient_def NewCreateRequest_def Let_def by simp

lemma CreateOAuth2BasicClient_fetch_succeeds:
  assumes "doRequest lib c ''POST'' ''/v1/oauth2/_basic''
             (Some (CreateRequestBody (CreateRequest
                [''name'' \<mapsto> VStrings (Some [name]),
                 ''displayname'' \<mapsto> VStrings (Some [displayName]),
                 ''oauth2_rs_origin_landing'' \<mapsto> VStrings (Some [origin])]))) w = (Inr resp, w1)"
    and "GetOAuth2BasicSecret lib c name w1 = (Inr secret, w2)"
  shows "CreateOAuth2BasicClient lib c name displayName origin w
           = (Inr \<lparr>Name = name, DisplayName = displayName, Origin = origin,
                   RedirectURIs = None, ScopeMaps = None, ClientID = name,
                   ClientSecret = secret, IsPublic = False\<rparr>, w2)"
  using assms unfolding CreateOAuth2BasicClient_def NewCreateRequest_def Let_def by simp

text \<open>
  C8 (as amended). Every successful \<open>CreateOAuth2BasicClient\<close> call has made the creation
  request and then, in the world that request left, the \<open>GetOAuth2BasicSecret\<close> fetch;
  the returned client has \<open>IsPublic = False\<close> and its \<open>ClientSecret\<close> is the fetched
  secret, whatever that is. If the fetch fails after a successful creation request, the
  call returns the fetch's error, wrapped, and no client.
\<close>

theorem CreateOAuth2BasicClient_fetches_secret:
  "(CreateOAuth2BasicClient lib c name displayName origin w = (Inr cl, w') \<longrightarrow>
      (\<exists>resp w1.
          doRequest lib c ''POST'' ''/v1/oauth2/_basic''
             (Some (CreateRequestBody (CreateRequest
                [''name'' \<mapsto> VStrings (Some [name]),
                 ''displayname'' \<mapsto> VStrings (Some [displayName]),
                 ''oauth2_rs_origin_landing'' \<mapsto> VStrings (Some [origin])]))) w = (Inr resp, w1)
          \<and> GetOAuth2BasicSecret lib c name w1 = (Inr (ClientSecret cl), w'))
      \<and> \<not> IsPublic cl)
   \<and> (doRequest lib c ''POST'' ''/v1/oauth2/_basic''
             (Some (CreateRequestBody (CreateRequest
                [''name'' \<mapsto> VStrings (Some [name]),
                 ''displayname'' \<mapsto> VStrings (Some [displayName]),
                 ''oauth2_rs_origin_landing'' \<mapsto> VStrings (Some [origin])]))) w = (Inr resp0, w0)
        \<and> GetOAuth2BasicSecret lib c name w0 = (Inl err, w2)
      \<longrightarrow> CreateOAuth2BasicClient lib c name displayName origin w
            = (Inl (Wrapped ''retrieve client secret'' err), w2))"
proof (intro conjI impI)
  let ?post = "doRequest lib c ''POST'' ''/v1/oauth2/_basic''
             (Some (CreateRequestBody (CreateRequest
                [''name'' \<mapsto> VStrings (Some [name]),
                 ''displayname'' \<mapsto> VStrings (Some [displayName]),
                 ''oauth2_rs_origin_landing'' \<mapsto> VStrings (Some [origin])]))) w"
  assume run: "CreateOAuth2BasicClient lib c name displayName origin w = (Inr cl, w')"
  obtain r1 w1 where post: "?post = (r1, w1)"
    by (cases ?post)
  have created: "\<exists>resp. r1 = Inr resp"
  proof (cases r1)
    case (Inl e)
    with post have "?post = (Inl e, w1)"
      by (simp only:)
    from CreateOAuth2BasicClient_create_fails [OF this] run show ?thesis
      by simp
  next
    case (Inr resp)
    then show ?thesis ..
  qed
  then obtain resp where post_ok: "?post = (Inr resp, w1)"
    using post by (elim exE) (simp only:)
  obtain r2 w2 where get: "GetOAuth2BasicSecret lib c name w1 = (r2, w2)"
    by (cases "GetOAuth2BasicSecret lib c name w1")
  have fetched: "\<exists>secret. r2 = Inr secret"
  proof (cases r2)
    case (Inl e)
    with get have "GetOAuth2BasicSecret lib c name w1 = (Inl e, w2)"
      by (simp only:)
    from CreateOAuth2BasicClient_fetch_fails [OF post_ok this] run show ?thesis
      by simp
  next
    case (Inr secret)
    then show ?thesis ..
  qed
  then obtain secret where get_ok: "GetOAuth2BasicSecret lib c name w1 = (Inr secret, w2)"
    using get by (elim exE) (simp only:)
  from CreateOAuth2BasicClient_fetch_succeeds [OF post_ok get_ok] run
  have cl: "cl = \<lparr>Name = name, DisplayName = displayName, Origin = origin,
                   RedirectURIs = None, ScopeMaps = None, ClientID = name,
                   ClientSecret = secret, IsPublic = False\<rparr>"
    and w': "w' = w2"
    by (simp_all only: prod.inject sum.inject)
  have secret: "ClientSecret cl = secret" and confidential: "\<not> IsPublic cl"
    unfolding cl by (simp_all only: OAuth2Client.select_convs not_False_eq_True)
  from post_ok get_ok show "\<exists>resp w1. ?post = (Inr resp, w1)
          \<and> GetOAuth2BasicSecret lib c name w1 = (Inr (ClientSecret cl), w')"
    unfolding secret w' by (intro exI conjI)
  from confidential show "\<not> IsPublic cl" .
next
  assume "doRequest lib c ''POST'' ''/v1/oauth2/_basic''
             (Some (CreateRequestBody (CreateRequest
                [''name'' \<mapsto> VStrings (Some [name]),
                 ''displayname'' \<mapsto> VStrings (Some [displayName]),
                 ''oauth2_rs_origin_landing'' \<mapsto> VStrings (Some [origin])]))) w = (Inr resp0, w0)
        \<and> GetOAuth2BasicSecret lib c name w0 = (Inl err, w2)"
  then show "CreateOAuth2BasicClient lib c name displayName origin w
            = (Inl (Wrapped ''retrieve client secret'' err), w2)"
    by (elim conjE) (rule CreateOAuth2BasicClient_fetch_fails)
qed

lemma test_lib_decoders:
  "json_Decode_string test_lib = test_Decode_string"
  "json_Decode_Entry test_lib = test_Decode_Entry"
  by (simp_all add: test_lib_def)

lemma test_create_basic:
  "doRequest test_lib test_client ''POST'' ''/v1/oauth2/_basic'' (Some b) []
     = (Inr \<lparr>StatusCode = 200, Body = ''null''\<rparr>, [(''POST'', ''https://idm/v1/oauth2/_basic'')])"
  by (simp add: test_doRequest test_answer_def checkResponse_def)

lemma test_secret_grafana:
  "GetOAuth2BasicSecret test_lib test_client ''grafana'' [(''POST'', ''https://idm/v1/oauth2/_basic'')]
     = (Inr ''s3cr3t'',
        [(''POST'', ''https://idm/v1/oauth2/_basic''),
         (''GET'', ''https://idm/v1/oauth2/grafana/_basic_secret'')])"
  by (simp add: GetOAuth2BasicSecret_def test_doRequest test_answer_def checkResponse_def
      decodeResponse_def test_lib_decoders test_Decode_string_def)

lemma test_secret_legacy:
  "GetOAuth2BasicSecret test_lib test_client ''legacy'' [(''POST'', ''https://idm/v1/oauth2/_basic'')]
     = (Inr '''',
        [(''POST'', ''https://idm/v1/oauth2/_basic''),
         (''GET'', ''https://idm/v1/oauth2/legacy/_basic_secret'')])"
  by (simp add: GetOAuth2BasicSecret_def test_doRequest test_answer_def checkResponse_def
      decodeResponse_def test_lib_decoders test_Decode_string_def)

lemma test_secret_unknown:
  "GetOAuth2BasicSecret test_lib test_client ''unknown'' [(''POST'', ''https://idm/v1/oauth2/_basic'')]
     = (Inl (Wrapped ''get oauth2 basic secret'' ErrNotFound),
        [(''POST'', ''https://idm/v1/oauth2/_basic''),
         (''GET'', ''https://idm/v1/oauth2/unknown/_basic_secret'')])"
  by (simp add: GetOAuth2BasicSecret_def test_doRequest test_answer_def checkResponse_def
      StatusNotFound_def)

theorem CreateOAuth2BasicClient_fetches_secret_witness:
  "CreateOAuth2BasicClient test_lib test_client ''grafana'' ''Grafana'' ''https://x.example.com'' []
     = (Inr \<lparr>Name = ''grafana'', DisplayName = ''Grafana'', Origin = ''https://x.example.com'',
             RedirectURIs = None, ScopeMaps = None, ClientID = ''grafana'',
             ClientSecret = ''s3cr3t'', IsPublic = False\<rparr>,
        [(''POST'', ''https://idm/v1/oauth2/_basic''),
         (''GET'', ''https://idm/v1/oauth2/grafana/_basic_secret'')])
   \<and> (\<exists>resp w1.
          doRequest test_lib test_client ''POST'' ''/v1/oauth2/_basic''
             (Some (CreateRequestBody (CreateRequest
                [''name'' \<mapsto> VStrings (Some [''grafana'']),
                 ''displayname'' \<mapsto> VStrings (Some [''Grafana'']),
                 ''oauth2_rs_origin_landing'' \<mapsto> VStrings (Some [''https://x.example.com''])]))) []
            = (Inr resp, w1)
          \<and> GetOAuth2BasicSecret test_lib test_client ''grafana'' w1
            = (Inr ''s3cr3t'',
               [(''POST'', ''https://idm/v1/oauth2/_basic''),
                (''GET'', ''https://idm/v1/oauth2/grafana/_basic_secret'')]))
   \<and> CreateOAuth2BasicClient test_lib test_client ''unknown'' ''Unknown'' ''https://u.example.com'' []
     = (Inl (Wrapped ''retrieve client secret'' (Wrapped ''get oauth2 basic secret'' ErrNotFound)),
        [(''POST'', ''https://idm/v1/oauth2/_basic''),
         (''GET'', ''https://idm/v1/oauth2/unknown/_basic_secret'')])"
proof -
  let ?cl = "\<lparr>Name = ''grafana'', DisplayName = ''Grafana'', Origin = ''https://x.example.com'',
             RedirectURIs = None, ScopeMaps = None, ClientID = ''grafana'',
             ClientSecret = ''s3cr3t'', IsPublic = False\<rparr>"
  have run: "CreateOAuth2BasicClient test_lib test_client ''grafana'' ''Grafana'' ''https://x.example.com'' []
     = (Inr ?cl,
        [(''POST'', ''https://idm/v1/oauth2/_basic''),
         (''GET'', ''https://idm/v1/oauth2/grafana/_basic_secret'')])"
    by (rule CreateOAuth2BasicClient_fetch_succeeds [OF test_create_basic test_secret_grafana])
  have secret: "ClientSecret ?cl = ''s3cr3t''"
    by (simp only: OAuth2Client.select_convs)
  note inst = CreateOAuth2BasicClient_fetches_secret
      [where lib = test_lib and c = test_client and w = "[]"]
  from inst [THEN conjunct1, THEN mp, OF run, THEN conjunct1]
  have fetched: "\<exists>resp w1.
          doRequest test_lib test_client ''POST'' ''/v1/oauth2/_basic''
             (Some (CreateRequestBody (CreateRequest
                [''name'' \<mapsto> VStrings (Some [''grafana'']),
                 ''displayname'' \<mapsto> VStrings (Some [''Grafana'']),
                 ''oauth2_rs_origin_landing'' \<mapsto> VStrings (Some [''https://x.example.com''])]))) []
            = (Inr resp, w1)
          \<and> GetOAuth2BasicSecret test_lib test_client ''grafana'' w1
            = (Inr ''s3cr3t'',
               [(''POST'', ''https://idm/v1/oauth2/_basic''),
                (''GET'', ''https://idm/v1/oauth2/grafana/_basic_secret'')])"
    unfolding secret .
  from inst [THEN conjunct2, THEN mp, OF conjI, OF test_create_basic test_secret_unknown]
  have failed: "CreateOAuth2BasicClient test_lib test_client ''unknown'' ''Unknown'' ''https://u.example.com'' []
     = (Inl (Wrapped ''retrieve client secret'' (Wrapped ''get oauth2 basic secret'' ErrNotFound)),
        [(''POST'', ''https://idm/v1/oauth2/_basic''),
         (''GET'', ''https://idm/v1/oauth2/unknown/_basic_secret'')])" .
  from run fetched failed show ?thesis
    by (intro conjI)
qed

text \<open>
  C8 as the specification states it fails: the server here answers the secret fetch for
  the client \<open>legacy\<close> with the empty JSON string. The call succeeds and the client it
  returns has an empty \<open>ClientSecret\<close>.
\<close>

theorem CreateOAuth2BasicClient_empty_secret_counterexample:
  "CreateOAuth2BasicClient test_lib test_client ''legacy'' ''Legacy'' ''https://l.example.com'' []
     = (Inr \<lparr>Name = ''legacy'', DisplayName = ''Legacy'', Origin = ''https://l.example.com'',
             RedirectURIs = None, ScopeMaps = None, ClientID = ''legacy'',
             ClientSecret = '''', IsPublic = False\<rparr>,
        [(''POST'', ''https://idm/v1/oauth2/_basic''),
         (''GET'', ''https://idm/v1/oauth2/legacy/_basic_secret'')])"
  by (rule CreateOAuth2BasicClient_fetch_succeeds [OF test_create_basic test_secret_legacy])

subsection \<open>Minting a credential reset token\<close>

text \<open>
  C9. The client's operation \<open>CreatePersonCredentialResetToken\<close> takes the person's id
  and an optional TTL; when the minting exchange succeeds and the response carries a
  token, the operation returns that token string unchanged, and no error.
\<close>

theorem CreatePersonCredentialResetToken_returns_token:
  assumes "exchange pid ttl = (method, path, payload)"
    and "doRequest lib c method path payload w = (Inr resp, w')"
    and "decodeToken (Body resp) = Inr tok"
  shows "CreatePersonCredentialResetToken lib c exchange decodeToken pid ttl w = (Inr tok, w')"
  using assms
  unfolding CreatePersonCredentialResetToken_def decodeResponse_def
  by simp

lemma fmt_d_3600: "fmt_d 3600 = ''3600''"
  by (simp add: fmt_d_def fmt_d_nat.simps [of 3600] fmt_d_nat.simps [of 360]
      fmt_d_nat.simps [of 36] fmt_d_nat.simps [of 3])

theorem CreatePersonCredentialResetToken_returns_token_witness:
  "CreatePersonCredentialResetToken test_lib test_client test_exchange test_Decode_string
       ''alice'' (Some 3600) []
     = (Inr ''tok-1'', [(''GET'', ''https://idm/v1/person/alice/_credential/_update_intent/3600'')])
   \<and> CreatePersonCredentialResetToken test_lib test_client test_exchange test_Decode_string
       ''alice'' None []
     = (Inr ''tok-2'', [(''GET'', ''https://idm/v1/person/alice/_credential/_update_intent'')])"
proof -
  have with_ttl: "test_exchange ''alice'' (Some 3600)
      = (''GET'', ''/v1/person/alice/_credential/_update_intent/3600'', None)"
    by (simp add: test_exchange_def fmt_d_3600)
  have without_ttl: "test_exchange ''alice'' None
      = (''GET'', ''/v1/person/alice/_credential/_update_intent'', None)"
    by (simp add: test_exchange_def)
  have minted1: "doRequest test_lib test_client ''GET''
        ''/v1/person/alice/_credential/_update_intent/3600'' None []
      = (Inr \<lparr>StatusCode = 200, Body = CHR 0x22 # ''tok-1'' @ [CHR 0x22]\<rparr>,
         [(''GET'', ''https://idm/v1/person/alice/_credential/_update_intent/3600'')])"
    by (simp add: test_doRequest test_answer_def checkResponse_def)
  have minted2: "doRequest test_lib test_client ''GET''
        ''/v1/person/alice/_credential/_update_intent'' None []
      = (Inr \<lparr>StatusCode = 200, Body = CHR 0x22 # ''tok-2'' @ [CHR 0x22]\<rparr>,
         [(''GET'', ''https://idm/v1/person/alice/_credential/_update_intent'')])"
    by (simp add: test_doRequest test_answer_def checkResponse_def)
  have token1: "test_Decode_string
      (Body \<lparr>StatusCode = 200, Body = CHR 0x22 # ''tok-1'' @ [CHR 0x22]\<rparr>) = Inr ''tok-1''"
    by (simp add: test_Decode_string_def)
  have token2: "test_Decode_string
      (Body \<lparr>StatusCode = 200, Body = CHR 0x22 # ''tok-2'' @ [CHR 0x22]\<rparr>) = Inr ''tok-2''"
    by (simp add: test_Decode_string_def)
  from CreatePersonCredentialResetToken_returns_token
      [where exchange = test_exchange and decodeToken = test_Decode_string
        and pid = "''alice''" and ttl = "Some 3600", OF with_ttl minted1 token1]
    CreatePersonCredentialResetToken_returns_token
      [where exchange = test_exchange and decodeToken = test_Decode_string
        and pid = "''alice''" and ttl = None, OF without_ttl minted2 token2]
  show ?thesis
    by (intro conjI)
qed

end
